theory Spec2Isabelle
  imports Complex_Main
begin

section \<open>Energy metrics and discount qualification\<close>

text \<open>
  A shallow embedding of \<^verbatim>\<open>src/energy_analyzer.py\<close> and of the class
  \<^verbatim>\<open>H200EnergyMonitor\<close> of \<^verbatim>\<open>src/energy_monitor.py\<close>.

  Python's \<^verbatim>\<open>float\<close> is modelled by \<^typ>\<open>real\<close>: every result below is a statement
  of exact arithmetic, and says nothing about rounding, infinities or NaN. Python's
  \<^verbatim>\<open>int\<close> is \<^typ>\<open>int\<close>. An exception is a value \<open>Inl e\<close> of a sum type.
\<close>

subsection \<open>Exceptions and the built-ins the code calls\<close>

datatype error =
    ValueError string
  | IndexError
  | StatisticsError
  | AttributeError

text \<open>
  The subscript \<^verbatim>\<open>xs[i]\<close>: from the front for \<open>i\<close> in \<open>0 .. len - 1\<close>, from the back
  for \<open>i\<close> in \<open>-len .. -1\<close>, and \<^verbatim>\<open>IndexError\<close> for every other \<open>i\<close>.
\<close>

definition py_index :: "'a list \<Rightarrow> int \<Rightarrow> error + 'a" where
  "py_index xs i =
     (if 0 \<le> i \<and> i < int (length xs) then Inr (xs ! nat i)
      else if i < 0 \<and> - int (length xs) \<le> i then Inr (xs ! nat (int (length xs) + i))
      else Inl IndexError)"

text \<open>\<^verbatim>\<open>xs[:k]\<close>: a negative bound counts from the end, and the slice never raises.\<close>

definition py_prefix :: "'a list \<Rightarrow> int \<Rightarrow> 'a list" where
  "py_prefix xs k =
     (if k < 0 then take (nat (int (length xs) + k)) xs else take (nat k) xs)"

text \<open>\<^verbatim>\<open>max(xs)\<close>: raises \<^verbatim>\<open>ValueError\<close> on an empty list.\<close>

definition py_max :: "real list \<Rightarrow> error + real" where
  "py_max xs =
     (case xs of
        [] \<Rightarrow> Inl (ValueError ''max() arg is an empty sequence'')
      | x # rest \<Rightarrow> Inr (fold max rest x))"

text \<open>
  \<^verbatim>\<open>statistics.mean\<close> and \<^verbatim>\<open>statistics.stdev\<close> of the standard library: the
  arithmetic mean, and the square root of the sample variance (divisor \<open>n - 1\<close>,
  around the mean). They raise \<^verbatim>\<open>StatisticsError\<close> on fewer than one, respectively
  two, data points.
\<close>

definition statistics_mean :: "real list \<Rightarrow> error + real" where
  "statistics_mean xs =
     (if xs = [] then Inl StatisticsError
      else Inr (sum_list xs / real (length xs)))"

definition statistics_stdev :: "real list \<Rightarrow> error + real" where
  "statistics_stdev xs =
     (if length xs < 2 then Inl StatisticsError
      else
        (let m = sum_list xs / real (length xs)
         in Inr (sqrt (sum_list (map (\<lambda>x. (x - m)\<^sup>2) xs) / real (length xs - 1)))))"

subsection \<open>\<^verbatim>\<open>energy_analyzer.calculate_energy\<close>\<close>

text \<open>
  The body of the \<^verbatim>\<open>for i in range(len(power_samples) - 1)\<close> loop, run over the
  list of the remaining indices with the running total \<open>acc\<close>. Each subscript can
  raise; \<^verbatim>\<open>timestamps[i+1]\<close> is evaluated first.
\<close>

fun energy_loop :: "real list \<Rightarrow> real list \<Rightarrow> nat list \<Rightarrow> real \<Rightarrow> error + real" where
  "energy_loop power_samples timestamps [] acc = Inr acc"
| "energy_loop power_samples timestamps (i # rest) acc =
     (case py_index timestamps (int i + 1) of Inl e \<Rightarrow> Inl e | Inr t1 \<Rightarrow>
      case py_index timestamps (int i) of Inl e \<Rightarrow> Inl e | Inr t0 \<Rightarrow>
      case py_index power_samples (int i) of Inl e \<Rightarrow> Inl e | Inr p0 \<Rightarrow>
      case py_index power_samples (int i + 1) of Inl e \<Rightarrow> Inl e | Inr p1 \<Rightarrow>
        energy_loop power_samples timestamps rest (acc + (p0 + p1) / 2 * (t1 - t0)))"

definition calculate_energy :: "real list \<Rightarrow> real list \<Rightarrow> error + real" where
  "calculate_energy power_samples timestamps =
     (if length power_samples < 2 then Inr 0
      else energy_loop power_samples timestamps [0..<length power_samples - 1] 0)"

text \<open>
  The trapezoidal rule as the specification words it: the sum over the adjacent
  pairs \<open>i\<close>, \<open>i + 1\<close> of \<open>(power[i] + power[i+1]) / 2 * (t[i+1] - t[i])\<close>.
\<close>

definition trapezoid :: "real list \<Rightarrow> real list \<Rightarrow> real" where
  "trapezoid ps ts =
     (\<Sum>i = 0..<length ps - 1. (ps ! i + ps ! (i + 1)) / 2 * (ts ! (i + 1) - ts ! i))"

text \<open>
  The statistics as the specification words them: the arithmetic mean, and the
  Bessel-corrected (divisor \<open>n - 1\<close>) sample standard deviation.
\<close>

definition arithmetic_mean :: "real list \<Rightarrow> real" where
  "arithmetic_mean xs = sum_list xs / real (length xs)"

definition sample_stdev :: "real list \<Rightarrow> real" where
  "sample_stdev xs =
     sqrt ((\<Sum>x\<leftarrow>xs. (x - arithmetic_mean xs)\<^sup>2) / (real (length xs) - 1))"

subsection \<open>\<^verbatim>\<open>energy_analyzer.calculate_metrics\<close>\<close>

record EnergyMetrics =
  total_energy_joules :: real
  tokens_generated :: int
  joules_per_token :: real
  tokens_per_joule :: real
  avg_power_watts :: real
  peak_power_watts :: real
  duration_seconds :: real
  prefill_energy_joules :: real
  prefill_duration_seconds :: real
  decode_energy_joules :: real
  decode_duration_seconds :: real
  wh_per_1k_queries :: real
  power_variance_cv :: real
  model_name :: "string option"
  run_id :: "string option"

text \<open>
  The function body, statement by statement. The first exception raised ends the
  call; the guards \<^verbatim>\<open>x if c else y\<close> evaluate only the branch taken.
\<close>

definition calculate_metrics ::
  "real list \<Rightarrow> real list \<Rightarrow> int \<Rightarrow> int \<Rightarrow> int \<Rightarrow> string option \<Rightarrow> string option
     \<Rightarrow> error + EnergyMetrics" where
  "calculate_metrics power_samples timestamps tokens prefill_sample_count tokens_per_query
       name rid =
     (if length power_samples < 2 then Inl (ValueError ''Need at least 2 samples'')
      else
        case calculate_energy power_samples timestamps of Inl e \<Rightarrow> Inl e
        | Inr total_energy_j \<Rightarrow>
        case py_index timestamps (- 1) of Inl e \<Rightarrow> Inl e | Inr t_last \<Rightarrow>
        case py_index timestamps 0 of Inl e \<Rightarrow> Inl e | Inr t_first \<Rightarrow>
        case statistics_mean power_samples of Inl e \<Rightarrow> Inl e | Inr avg_power \<Rightarrow>
        case py_max power_samples of Inl e \<Rightarrow> Inl e | Inr peak_power \<Rightarrow>
        case (if length power_samples > 1 then statistics_stdev power_samples else Inr 0) of
          Inl e \<Rightarrow> Inl e
        | Inr power_stdev \<Rightarrow>
        let duration = t_last - t_first;
            power_cv = (if avg_power > 1 then power_stdev / avg_power else 0);
            jpt = (if tokens > 0 then total_energy_j / real_of_int tokens else 0);
            tpj = (if total_energy_j > 0 then real_of_int tokens / total_energy_j else 0);
            wh = (jpt * real_of_int tokens_per_query * 1000) / 3600
        in
        case
          (if prefill_sample_count > 0 \<and> prefill_sample_count < int (length power_samples)
           then
             case calculate_energy (py_prefix power_samples prefill_sample_count)
                    (py_prefix timestamps prefill_sample_count) of
               Inl e \<Rightarrow> Inl e
             | Inr pe \<Rightarrow>
             case py_index timestamps (prefill_sample_count - 1) of Inl e \<Rightarrow> Inl e
             | Inr t_split \<Rightarrow>
             case py_index timestamps 0 of Inl e \<Rightarrow> Inl e
             | Inr t0 \<Rightarrow> Inr (pe, t_split - t0)
           else Inr (0, 0))
        of Inl e \<Rightarrow> Inl e
        | Inr (prefill_energy, prefill_duration) \<Rightarrow>
          Inr \<lparr> total_energy_joules = total_energy_j,
                tokens_generated = tokens,
                joules_per_token = jpt,
                tokens_per_joule = tpj,
                avg_power_watts = avg_power,
                peak_power_watts = peak_power,
                duration_seconds = duration,
                prefill_energy_joules = prefill_energy,
                prefill_duration_seconds = prefill_duration,
                decode_energy_joules = total_energy_j - prefill_energy,
                decode_duration_seconds = duration - prefill_duration,
                wh_per_1k_queries = wh,
                power_variance_cv = power_cv,
                model_name = name,
                run_id = rid \<rparr>)"

text \<open>The call that leaves every optional argument at its default.\<close>

definition calculate_metrics_default :: "real list \<Rightarrow> real list \<Rightarrow> int \<Rightarrow> error + EnergyMetrics" where
  "calculate_metrics_default power_samples timestamps tokens =
     calculate_metrics power_samples timestamps tokens 0 100 None None"

subsection \<open>\<^verbatim>\<open>energy_monitor.H200EnergyMonitor\<close>\<close>

datatype DiscountTier = TIER_1_EFFICIENT | TIER_2_STANDARD | TIER_3_HIGH_VARIANCE

text \<open>
  The three \<^verbatim>\<open>reasoning\<close> f-strings, each with the two numbers it interpolates
  (\<^verbatim>\<open>power_cv\<close>, \<^verbatim>\<open>avg_power\<close>); how a float is printed is not modelled.
\<close>

datatype reasoning_text =
    Excellent_stability real real
  | Good_stability real real
  | High_variance real real

record QualificationResult =
  tier :: DiscountTier
  discount_percentage :: real
  power_cv :: real
  avg_power_watts_q :: real
  peak_power_watts_q :: real
  qualified_q :: bool
  reasoning :: reasoning_text

text \<open>
  The monitor module's own \<^verbatim>\<open>EnergyMetrics\<close> dataclass. A field name that is
  taken already carries a suffix (\<open>_m\<close> here, \<open>_q\<close> in \<open>QualificationResult\<close>).
\<close>

record H200EnergyMetrics =
  total_energy_joules_m :: real
  tokens_generated_m :: int
  joules_per_token_m :: real
  tokens_per_joule_m :: real
  avg_power_watts_m :: real
  peak_power_watts_m :: real
  duration_seconds_m :: real
  prefill_energy_joules_m :: real
  decode_energy_joules_m :: real
  wh_per_1k_queries_m :: real
  gpu_temp_celsius :: "real option"
  thermal_throttled :: bool
  power_throttled :: bool
  power_variance_cv_m :: "real option"

text \<open>
  The attributes of a monitor. \<^verbatim>\<open>start_time\<close> and \<^verbatim>\<open>end_time\<close> do not exist
  until \<^verbatim>\<open>start_monitoring\<close> and \<^verbatim>\<open>stop_monitoring\<close> set them (\<open>None\<close>; reading
  one then raises \<^verbatim>\<open>AttributeError\<close>). The NVML handle is the environment: each
  method takes what the driver and the clock answer as arguments.
\<close>

record H200EnergyMonitor =
  gpu_index :: int
  sampling_interval :: real
  power_samples :: "real list"
  timestamps :: "real list"
  monitoring_active :: bool
  start_time :: "real option"
  end_time :: "real option"

text \<open>The monitor a successful \<^verbatim>\<open>__init__\<close> leaves.\<close>

definition init :: "int \<Rightarrow> real \<Rightarrow> H200EnergyMonitor" where
  "init idx interval =
     \<lparr> gpu_index = idx, sampling_interval = interval, power_samples = [],
       timestamps = [], monitoring_active = False, start_time = None, end_time = None \<rparr>"

definition start_monitoring :: "real \<Rightarrow> H200EnergyMonitor \<Rightarrow> H200EnergyMonitor" where
  "start_monitoring now self =
     self \<lparr> power_samples := [], timestamps := [], monitoring_active := True,
            start_time := Some now \<rparr>"

text \<open>
  \<open>reading\<close> is what \<^verbatim>\<open>nvmlDeviceGetPowerUsage\<close> answers, in milliwatts, or \<open>None\<close>
  when it raises \<^verbatim>\<open>NVMLError\<close> (a warning is printed and nothing is recorded);
  \<open>now\<close> is \<^verbatim>\<open>time.time()\<close>.
\<close>

definition sample_power :: "nat option \<Rightarrow> real \<Rightarrow> H200EnergyMonitor \<Rightarrow> H200EnergyMonitor" where
  "sample_power reading now self =
     (if \<not> monitoring_active self then self
      else
        case reading of
          None \<Rightarrow> self
        | Some power_mw \<Rightarrow>
            self \<lparr> power_samples := power_samples self @ [real power_mw / 1000],
                   timestamps := timestamps self @ [now] \<rparr>)"

text \<open>
  \<^verbatim>\<open>stop_monitoring\<close> writes two attributes before it can raise, so the monitor
  is returned beside the result. Its loop has the body of \<open>energy_loop\<close>.
\<close>

definition stop_monitoring :: "real \<Rightarrow> H200EnergyMonitor \<Rightarrow> (error + real) \<times> H200EnergyMonitor" where
  "stop_monitoring now self =
     (let self' = self \<lparr> monitoring_active := False, end_time := Some now \<rparr>
      in if length (power_samples self') < 2
         then (Inl (ValueError ''Insufficient power samples for energy calculation''), self')
         else (energy_loop (power_samples self') (timestamps self')
                 [0..<length (power_samples self') - 1] 0, self'))"

text \<open>
  \<open>temp\<close> is what \<^verbatim>\<open>nvmlDeviceGetTemperature\<close> answers, or \<open>None\<close> when it raises
  (the bare \<^verbatim>\<open>except\<close> turns that into \<^verbatim>\<open>None\<close>).
\<close>

definition H200_calculate_metrics ::
  "real \<Rightarrow> nat option \<Rightarrow> int \<Rightarrow> int \<Rightarrow> H200EnergyMonitor
     \<Rightarrow> (error + H200EnergyMetrics) \<times> H200EnergyMonitor" where
  "H200_calculate_metrics now temp tokens prefill_tokens self =
     (case stop_monitoring now self of
        (Inl e, self') \<Rightarrow> (Inl e, self')
      | (Inr total_energy_j, self') \<Rightarrow>
        (case end_time self' of None \<Rightarrow> Inl AttributeError | Some t_end \<Rightarrow>
         case start_time self' of None \<Rightarrow> Inl AttributeError | Some t_start \<Rightarrow>
         case statistics_mean (power_samples self') of Inl e \<Rightarrow> Inl e | Inr avg_power \<Rightarrow>
         case py_max (power_samples self') of Inl e \<Rightarrow> Inl e | Inr peak_power \<Rightarrow>
         case (if length (power_samples self') > 1
               then statistics_stdev (power_samples self') else Inr 0) of
           Inl e \<Rightarrow> Inl e
         | Inr power_stdev \<Rightarrow>
         let duration = t_end - t_start;
             cv = (if avg_power > 0 then power_stdev / avg_power else 0);
             jpt = (if tokens > 0 then total_energy_j / real_of_int tokens else 0);
             tpj = (if total_energy_j > 0 then real_of_int tokens / total_energy_j else 0);
             wh = (jpt * 100 * 1000) / 3600;
             (prefill_energy, decode_energy) =
               (if prefill_tokens > 0 \<and> int (length (power_samples self')) > prefill_tokens
                then
                  (let pe = sum_list (py_prefix (power_samples self') prefill_tokens)
                              * sampling_interval self'
                   in (pe, total_energy_j - pe))
                else (0, total_energy_j))
         in Inr \<lparr> total_energy_joules_m = total_energy_j,
                  tokens_generated_m = tokens,
                  joules_per_token_m = jpt,
                  tokens_per_joule_m = tpj,
                  avg_power_watts_m = avg_power,
                  peak_power_watts_m = peak_power,
                  duration_seconds_m = duration,
                  prefill_energy_joules_m = prefill_energy,
                  decode_energy_joules_m = decode_energy,
                  wh_per_1k_queries_m = wh,
                  gpu_temp_celsius = map_option real temp,
                  thermal_throttled = False,
                  power_throttled = False,
                  power_variance_cv_m = Some cv \<rparr>,
         self'))"

text \<open>
  Lines 238 to 252 of \<^verbatim>\<open>qualify_for_discount\<close>: the \<^verbatim>\<open>if\<close>/\<^verbatim>\<open>elif\<close>/\<^verbatim>\<open>else\<close>
  chain over the measured \<^verbatim>\<open>power_cv\<close> and \<^verbatim>\<open>avg_power\<close>, giving
  \<^verbatim>\<open>tier\<close>, \<^verbatim>\<open>discount\<close>, \<^verbatim>\<open>qualified\<close> and \<^verbatim>\<open>reasoning\<close>.
\<close>

definition determine_tier :: "real \<Rightarrow> real \<Rightarrow> DiscountTier \<times> real \<times> bool \<times> reasoning_text" where
  "determine_tier cv avg_power =
     (if cv < 0.10 \<and> avg_power < 150
      then (TIER_1_EFFICIENT, 20, True, Excellent_stability cv avg_power)
      else if cv < 0.15 \<and> avg_power < 200
      then (TIER_2_STANDARD, 10, True, Good_stability cv avg_power)
      else (TIER_3_HIGH_VARIANCE, 0, False, High_variance cv avg_power))"

text \<open>
  \<open>polls i\<close> is what the driver and the clock answer at round \<open>i\<close> of the sampling
  loop; \<open>t_start\<close> and \<open>t_stop\<close> are the clock at \<^verbatim>\<open>start_monitoring\<close> and
  \<^verbatim>\<open>stop_monitoring\<close>. The \<^verbatim>\<open>print\<close> calls and \<^verbatim>\<open>time.sleep\<close> leave no trace in
  the result; \<^verbatim>\<open>sample_tokens\<close> is never read.
\<close>

definition qualify_for_discount ::
  "(nat \<Rightarrow> nat option \<times> real) \<Rightarrow> real \<Rightarrow> real \<Rightarrow> int \<Rightarrow> int \<Rightarrow> H200EnergyMonitor
     \<Rightarrow> (error + QualificationResult) \<times> H200EnergyMonitor" where
  "qualify_for_discount polls t_start t_stop num_samples sample_tokens self =
     (let started = start_monitoring t_start self;
          sampled = fold (\<lambda>i m. sample_power (fst (polls i)) (snd (polls i)) m)
                      [0..<nat num_samples] started
      in case stop_monitoring t_stop sampled of
           (Inl e, self') \<Rightarrow> (Inl e, self')
         | (Inr total_energy_j, self') \<Rightarrow>
           (case statistics_mean (power_samples self') of Inl e \<Rightarrow> Inl e | Inr avg_power \<Rightarrow>
            case py_max (power_samples self') of Inl e \<Rightarrow> Inl e | Inr peak_power \<Rightarrow>
            case (if length (power_samples self') > 1
                  then statistics_stdev (power_samples self') else Inr 0) of
              Inl e \<Rightarrow> Inl e
            | Inr power_stdev \<Rightarrow>
            let cv = (if avg_power > 0 then power_stdev / avg_power else 0);
                (t, discount, q, why) = determine_tier cv avg_power
            in Inr \<lparr> tier = t,
                     discount_percentage = discount,
                     power_cv = cv,
                     avg_power_watts_q = avg_power,
                     peak_power_watts_q = peak_power,
                     qualified_q = q,
                     reasoning = why \<rparr>,
            self'))"

text \<open>
  What one run of the sampling loop measures: the power, in watts, and the clock
  of the rounds \<open>0 .. num_samples - 1\<close> in which the driver answered.
\<close>

definition measured_power :: "(nat \<Rightarrow> nat option \<times> real) \<Rightarrow> int \<Rightarrow> real list" where
  "measured_power polls num_samples =
     List.map_filter (\<lambda>i. map_option (\<lambda>power_mw. real power_mw / 1000) (fst (polls i)))
       [0..<nat num_samples]"

definition measured_times :: "(nat \<Rightarrow> nat option \<times> real) \<Rightarrow> int \<Rightarrow> real list" where
  "measured_times polls num_samples =
     List.map_filter (\<lambda>i. map_option (\<lambda>power_mw. snd (polls i)) (fst (polls i)))
       [0..<nat num_samples]"

section \<open>Properties\<close>

subsection \<open>The built-ins on inputs in range\<close>

lemma py_index_nat: "i < length xs \<Longrightarrow> py_index xs (int i) = Inr (xs ! i)"
  by (simp add: py_index_def)

lemma py_index_Suc: "Suc i < length xs \<Longrightarrow> py_index xs (int i + 1) = Inr (xs ! Suc i)"
  using py_index_nat [of "Suc i" xs] by (simp add: add.commute)

lemma py_index_first: "xs \<noteq> [] \<Longrightarrow> py_index xs 0 = Inr (hd xs)"
  by (cases xs) (simp_all add: py_index_def)

lemma py_index_last: "xs \<noteq> [] \<Longrightarrow> py_index xs (- 1) = Inr (last xs)"
proof (cases xs)
  case Nil
  assume "xs \<noteq> []"
  with Nil show ?thesis by simp
next
  case (Cons a rest)
  have "last (a # rest) = (a # rest) ! length rest"
    by (simp add: last_conv_nth)
  with Cons show ?thesis
    by (simp add: py_index_def)
qed

lemma py_index_pred: "0 < k \<Longrightarrow> k \<le> int (length xs) \<Longrightarrow> py_index xs (k - 1) = Inr (xs ! (nat k - 1))"
  by (simp add: py_index_def nat_diff_distrib')

lemma py_prefix_take: "0 \<le> k \<Longrightarrow> py_prefix xs k = take (nat k) xs"
  by (simp add: py_prefix_def)

lemma py_max_Max: "xs \<noteq> [] \<Longrightarrow> py_max xs = Inr (Max (set xs))"
  by (cases xs) (simp_all add: py_max_def Max.set_eq_fold [symmetric])

lemma energy_loop_sum:
  assumes "\<forall>i \<in> set idx. Suc i < length ps \<and> Suc i < length ts"
  shows "energy_loop ps ts idx acc =
     Inr (acc + (\<Sum>i\<leftarrow>idx. (ps ! i + ps ! (i + 1)) / 2 * (ts ! (i + 1) - ts ! i)))"
  using assms
proof (induction idx arbitrary: acc)
  case Nil
  show ?case by simp
next
  case (Cons i rest)
  then have i: "Suc i < length ps" "Suc i < length ts" by simp_all
  from Cons have "\<forall>i \<in> set rest. Suc i < length ps \<and> Suc i < length ts" by simp
  from Cons.IH [OF this] i show ?case
    by (simp add: py_index_nat py_index_Suc add.assoc)
qed

lemma energy_loop_trapezoid:
  assumes "length ps \<le> length ts"
  shows "energy_loop ps ts [0..<length ps - 1] 0 = Inr (trapezoid ps ts)"
proof -
  have "\<forall>i \<in> set [0..<length ps - 1]. Suc i < length ps \<and> Suc i < length ts"
    using assms by auto
  from energy_loop_sum [OF this, of 0] show ?thesis
    by (simp add: trapezoid_def interv_sum_list_conv_sum_set_nat)
qed

lemma trapezoid_short: "length ps < 2 \<Longrightarrow> trapezoid ps ts = 0"
proof -
  assume "length ps < 2"
  then have "length ps - 1 = 0" by simp
  then show ?thesis by (simp add: trapezoid_def)
qed

lemma calculate_energy_trapezoid:
  assumes "length ps \<le> length ts"
  shows "calculate_energy ps ts = Inr (trapezoid ps ts)"
proof (cases "length ps < 2")
  case True
  then show ?thesis by (simp add: calculate_energy_def trapezoid_short)
next
  case False
  with energy_loop_trapezoid [OF assms] show ?thesis
    unfolding calculate_energy_def by simp
qed

lemma calculate_metrics_valid:
  assumes "2 \<le> length ps" and "length ps \<le> length ts"
  shows "calculate_metrics ps ts tok n tpq name rid =
    Inr \<lparr> total_energy_joules = trapezoid ps ts,
          tokens_generated = tok,
          joules_per_token = (if tok > 0 then trapezoid ps ts / real_of_int tok else 0),
          tokens_per_joule = (if trapezoid ps ts > 0 then real_of_int tok / trapezoid ps ts else 0),
          avg_power_watts = arithmetic_mean ps,
          peak_power_watts = Max (set ps),
          duration_seconds = last ts - hd ts,
          prefill_energy_joules =
            (if 0 < n \<and> n < int (length ps) then trapezoid (take (nat n) ps) (take (nat n) ts) else 0),
          prefill_duration_seconds =
            (if 0 < n \<and> n < int (length ps) then ts ! (nat n - 1) - hd ts else 0),
          decode_energy_joules = trapezoid ps ts -
            (if 0 < n \<and> n < int (length ps) then trapezoid (take (nat n) ps) (take (nat n) ts) else 0),
          decode_duration_seconds = last ts - hd ts -
            (if 0 < n \<and> n < int (length ps) then ts ! (nat n - 1) - hd ts else 0),
          wh_per_1k_queries =
            (if tok > 0 then trapezoid ps ts / real_of_int tok else 0) * real_of_int tpq * 1000 / 3600,
          power_variance_cv =
            (if arithmetic_mean ps > 1 then sample_stdev ps / arithmetic_mean ps else 0),
          model_name = name,
          run_id = rid \<rparr>"
proof -
  from assms have ne: "ps \<noteq> []" "ts \<noteq> []" by auto
  have e: "calculate_energy ps ts = Inr (trapezoid ps ts)"
    using assms by (simp add: calculate_energy_trapezoid)
  have pe: "calculate_energy (take k ps) (take k ts) = Inr (trapezoid (take k ps) (take k ts))" for k
    using assms by (simp add: calculate_energy_trapezoid)
  show ?thesis
    using assms ne
    by (simp add: calculate_metrics_def e pe py_index_first py_index_last py_index_pred
        py_prefix_take py_max_Max statistics_mean_def statistics_stdev_def
        arithmetic_mean_def sample_stdev_def Let_def)
qed


lemma trapezoid_split:
  assumes "0 < k" and "k \<le> length ps" and "length ps \<le> length ts"
  shows "trapezoid ps ts =
     trapezoid (take k ps) (take k ts) + trapezoid (drop (k - 1) ps) (drop (k - 1) ts)"
proof -
  let ?f = "\<lambda>i. (ps ! i + ps ! (i + 1)) / 2 * (ts ! (i + 1) - ts ! i)"
  have a: "trapezoid (take k ps) (take k ts) = sum ?f {0..<k - 1}"
    using assms by (simp add: trapezoid_def min_def)
  have "trapezoid (drop (k - 1) ps) (drop (k - 1) ts) =
      (\<Sum>i = 0..<length ps - k. ?f (i + (k - 1)))"
  proof -
    have "(drop (k - 1) ps ! i + drop (k - 1) ps ! (i + 1)) / 2
            * (drop (k - 1) ts ! (i + 1) - drop (k - 1) ts ! i) = ?f (i + (k - 1))" for i
      using assms by (simp add: add.commute)
    with assms show ?thesis by (simp add: trapezoid_def)
  qed
  also have "\<dots> = sum ?f {k - 1..<length ps - 1}"
    using assms sum.shift_bounds_nat_ivl [of ?f 0 "k - 1" "length ps - k"] by simp
  finally have b: "trapezoid (drop (k - 1) ps) (drop (k - 1) ts) = sum ?f {k - 1..<length ps - 1}" .
  have "sum ?f {0..<length ps - 1} = sum ?f {0..<k - 1} + sum ?f {k - 1..<length ps - 1}"
    using assms by (intro sum.atLeastLessThan_concat [symmetric]) auto
  with a b show ?thesis by (simp add: trapezoid_def)
qed

lemma sum_list_le_Max:
  fixes xs :: "real list"
  shows "sum_list xs \<le> real (length xs) * Max (set xs)"
proof -
  have "sum_list (map (\<lambda>x. x) xs) \<le> sum_list (map (\<lambda>x. Max (set xs)) xs)"
    by (rule sum_list_mono) simp
  then show ?thesis by (simp add: sum_list_triv)
qed

lemma mean_le_Max:
  fixes xs :: "real list"
  assumes "xs \<noteq> []"
  shows "arithmetic_mean xs \<le> Max (set xs)"
  using assms sum_list_le_Max [of xs]
  by (simp add: arithmetic_mean_def pos_divide_le_eq mult.commute)

lemma trapezoid_constant:
  assumes "\<forall>x \<in> set ps. x = p" and "length ts = length ps" and "ps \<noteq> []"
  shows "trapezoid ps ts = p * (last ts - hd ts)"
proof -
  have "ps ! i = p" if "i < length ps" for i
    using assms(1) that by simp
  then have "trapezoid ps ts = (\<Sum>i = 0..<length ps - 1. p * (ts ! (i + 1) - ts ! i))"
    unfolding trapezoid_def by (intro sum.cong) auto
  also have "\<dots> = p * (\<Sum>i = 0..<length ps - 1. ts ! Suc i - ts ! i)"
    by (simp add: sum_distrib_left)
  also have "(\<Sum>i = 0..<length ps - 1. ts ! Suc i - ts ! i) = ts ! (length ps - 1) - ts ! 0"
    using sum_Suc_diff' [of 0 "length ps - 1" "\<lambda>i. ts ! i"] by simp
  finally have "trapezoid ps ts = p * (ts ! (length ps - 1) - ts ! 0)" .
  moreover have "ts \<noteq> []" using assms by auto
  ultimately show ?thesis
    using assms(2) by (simp add: last_conv_nth hd_conv_nth)
qed

lemma constant_mean:
  assumes "\<forall>x \<in> set ps. x = p" and "ps \<noteq> []"
  shows "arithmetic_mean ps = p"
proof -
  have "ps = replicate (length ps) p"
    using assms by (simp add: replicate_length_same)
  then have "sum_list ps = real (length ps) * p"
    by (metis sum_list_replicate)
  with assms show ?thesis by (simp add: arithmetic_mean_def)
qed

lemma constant_stdev:
  assumes "\<forall>x \<in> set ps. x = p" and "ps \<noteq> []"
  shows "sample_stdev ps = 0"
proof -
  have "(\<Sum>x\<leftarrow>ps. (x - arithmetic_mean ps)\<^sup>2) = (\<Sum>x\<leftarrow>ps. 0)"
    using assms constant_mean [OF assms] by (intro arg_cong [where f = sum_list] map_cong) auto
  then show ?thesis by (simp add: sample_stdev_def)
qed

subsection \<open>The monitor on a recorded session\<close>

lemma stop_monitoring_valid:
  assumes "2 \<le> length (power_samples self)"
    and "length (power_samples self) \<le> length (timestamps self)"
  shows "stop_monitoring now self =
     (Inr (trapezoid (power_samples self) (timestamps self)),
      self \<lparr> monitoring_active := False, end_time := Some now \<rparr>)"
  using assms energy_loop_trapezoid [of "power_samples self" "timestamps self"]
  by (simp add: stop_monitoring_def Let_def)

lemma stop_monitoring_short:
  assumes "length (power_samples self) < 2"
  shows "stop_monitoring now self =
     (Inl (ValueError ''Insufficient power samples for energy calculation''),
      self \<lparr> monitoring_active := False, end_time := Some now \<rparr>)"
  using assms by (simp add: stop_monitoring_def Let_def)

lemma H200_calculate_metrics_valid:
  assumes "2 \<le> length (power_samples self)"
    and "length (power_samples self) \<le> length (timestamps self)"
    and "start_time self = Some t_start"
  shows "H200_calculate_metrics now temp tok pt self =
    (Inr \<lparr> total_energy_joules_m = trapezoid (power_samples self) (timestamps self),
           tokens_generated_m = tok,
           joules_per_token_m =
             (if tok > 0 then trapezoid (power_samples self) (timestamps self) / real_of_int tok
              else 0),
           tokens_per_joule_m =
             (if trapezoid (power_samples self) (timestamps self) > 0
              then real_of_int tok / trapezoid (power_samples self) (timestamps self) else 0),
           avg_power_watts_m = arithmetic_mean (power_samples self),
           peak_power_watts_m = Max (set (power_samples self)),
           duration_seconds_m = now - t_start,
           prefill_energy_joules_m =
             (if 0 < pt \<and> pt < int (length (power_samples self))
              then sum_list (take (nat pt) (power_samples self)) * sampling_interval self else 0),
           decode_energy_joules_m = trapezoid (power_samples self) (timestamps self) -
             (if 0 < pt \<and> pt < int (length (power_samples self))
              then sum_list (take (nat pt) (power_samples self)) * sampling_interval self else 0),
           wh_per_1k_queries_m =
             (if tok > 0 then trapezoid (power_samples self) (timestamps self) / real_of_int tok
              else 0) * 100 * 1000 / 3600,
           gpu_temp_celsius = map_option real temp,
           thermal_throttled = False,
           power_throttled = False,
           power_variance_cv_m =
             Some (if arithmetic_mean (power_samples self) > 0
                   then sample_stdev (power_samples self) / arithmetic_mean (power_samples self)
                   else 0) \<rparr>,
     self \<lparr> monitoring_active := False, end_time := Some now \<rparr>)"
proof -
  from assms have ne: "power_samples self \<noteq> []" by auto
  show ?thesis
    using assms ne
    by (simp add: H200_calculate_metrics_def stop_monitoring_valid py_prefix_take py_max_Max
        statistics_mean_def statistics_stdev_def arithmetic_mean_def sample_stdev_def Let_def)
qed

subsection \<open>The sampling loop of the qualification run\<close>

lemma sample_power_active:
  "monitoring_active m \<Longrightarrow> monitoring_active (sample_power reading now m)"
  by (simp add: sample_power_def split: option.splits)

lemma fold_sample_power:
  assumes "monitoring_active m"
  shows "fold (\<lambda>i m. sample_power (fst (polls i)) (snd (polls i)) m) idx m =
     m \<lparr> power_samples := power_samples m @
            List.map_filter (\<lambda>i. map_option (\<lambda>power_mw. real power_mw / 1000) (fst (polls i))) idx,
         timestamps := timestamps m @
            List.map_filter (\<lambda>i. map_option (\<lambda>power_mw. snd (polls i)) (fst (polls i))) idx \<rparr>"
  using assms
proof (induction idx arbitrary: m)
  case Nil
  show ?case by (simp add: map_filter_simps)
next
  case (Cons i rest)
  from Cons.prems have "monitoring_active (sample_power (fst (polls i)) (snd (polls i)) m)"
    by (rule sample_power_active)
  from Cons.IH [OF this] Cons.prems show ?case
    by (cases "fst (polls i)") (simp_all add: sample_power_def map_filter_simps)
qed

lemma sampling_loop:
  "fold (\<lambda>i m. sample_power (fst (polls i)) (snd (polls i)) m) [0..<nat num_samples]
     (start_monitoring t_start self) =
   self \<lparr> power_samples := measured_power polls num_samples,
          timestamps := measured_times polls num_samples,
          monitoring_active := True, start_time := Some t_start \<rparr>"
proof -
  have "monitoring_active (start_monitoring t_start self)"
    by (simp add: start_monitoring_def)
  from fold_sample_power [OF this, of polls "[0..<nat num_samples]"] show ?thesis
    by (simp add: start_monitoring_def measured_power_def measured_times_def)
qed

lemma measured_lengths:
  "length (measured_times polls num_samples) = length (measured_power polls num_samples)"
  by (simp add: measured_power_def measured_times_def map_filter_def)

lemma qualify_for_discount_short:
  assumes "length (measured_power polls num_samples) < 2"
  shows "fst (qualify_for_discount polls t_start t_stop num_samples sample_tokens self) =
     Inl (ValueError ''Insufficient power samples for energy calculation'')"
  using assms
  by (simp add: qualify_for_discount_def sampling_loop stop_monitoring_short Let_def)

lemma qualify_for_discount_valid:
  assumes "2 \<le> length (measured_power polls num_samples)"
  shows "fst (qualify_for_discount polls t_start t_stop num_samples sample_tokens self) =
     (let ps = measured_power polls num_samples;
          cv = (if 0 < arithmetic_mean ps then sample_stdev ps / arithmetic_mean ps else 0)
      in Inr \<lparr> tier = fst (determine_tier cv (arithmetic_mean ps)),
               discount_percentage = fst (snd (determine_tier cv (arithmetic_mean ps))),
               power_cv = cv,
               avg_power_watts_q = arithmetic_mean ps,
               peak_power_watts_q = Max (set ps),
               qualified_q = fst (snd (snd (determine_tier cv (arithmetic_mean ps)))),
               reasoning = snd (snd (snd (determine_tier cv (arithmetic_mean ps)))) \<rparr>)"
proof -
  from assms have ne: "measured_power polls num_samples \<noteq> []" by auto
  show ?thesis
    using assms ne
    by (simp add: qualify_for_discount_def sampling_loop stop_monitoring_valid measured_lengths
        py_max_Max statistics_mean_def statistics_stdev_def arithmetic_mean_def sample_stdev_def
        Let_def split_beta)
qed

subsection \<open>Fewer timestamps than samples\<close>

lemma py_index_error: "py_index xs i = Inl e \<Longrightarrow> e = IndexError"
  by (simp add: py_index_def split: if_splits)

lemma py_index_beyond: "length xs \<le> Suc i \<Longrightarrow> py_index xs (int i + 1) = Inl IndexError"
  by (simp add: py_index_def)

lemma energy_loop_IndexError:
  assumes "\<exists>i \<in> set idx. length ts \<le> Suc i"
  shows "energy_loop ps ts idx acc = Inl IndexError"
  using assms
proof (induction idx arbitrary: acc)
  case Nil
  then show ?case by simp
next
  case (Cons i rest)
  show ?case
  proof (cases "length ts \<le> Suc i")
    case True
    then show ?thesis by (simp add: py_index_beyond)
  next
    case False
    with Cons.prems have "\<exists>i \<in> set rest. length ts \<le> Suc i" by simp
    from Cons.IH [OF this] show ?thesis
      by (auto split: sum.splits dest: py_index_error)
  qed
qed

lemma calculate_energy_IndexError:
  assumes "2 \<le> length ps" and "length ts < length ps"
  shows "calculate_energy ps ts = Inl IndexError"
proof -
  have "length ps - 2 \<in> set [0..<length ps - 1]" using assms by auto
  moreover have "length ts \<le> Suc (length ps - 2)" using assms by simp
  ultimately have "\<exists>i \<in> set [0..<length ps - 1]. length ts \<le> Suc i" by blast
  from energy_loop_IndexError [OF this] assms show ?thesis
    by (simp add: calculate_energy_def)
qed

subsection \<open>Concrete sessions\<close>

lemma trapezoid_three:
  "trapezoid [a, b, c] (t0 # t1 # t2 # rest) =
     (a + b) / 2 * (t1 - t0) + (b + c) / 2 * (t2 - t1)"
  by (simp add: trapezoid_def eval_nat_numeral)

lemma sqrt_sixteenth: "sqrt (1 / 16) = 1 / 4"
  by (rule real_sqrt_unique) (simp_all add: power2_eq_square)

lemma stats_quarters:
  "arithmetic_mean [1 / 4, 1 / 2, 3 / 4] = 1 / 2"
  "sample_stdev [1 / 4, 1 / 2, 3 / 4] = 1 / 4"
  by (simp_all add: arithmetic_mean_def sample_stdev_def power2_eq_square sqrt_sixteenth)

lemma stats_one_two_three:
  "arithmetic_mean [1, 2, 3] = 2"
  "sample_stdev [1, 2, 3] = 1"
  by (simp_all add: arithmetic_mean_def sample_stdev_def)

lemma recorded_quarters:
  "sample_power (Some 750) 2 (sample_power (Some 500) 1 (sample_power (Some 250) 0
     (start_monitoring 0 (init 0 0.025)))) =
   \<lparr> gpu_index = 0, sampling_interval = 0.025, power_samples = [1 / 4, 1 / 2, 3 / 4],
     timestamps = [0, 1, 2], monitoring_active = True, start_time = Some 0, end_time = None \<rparr>"
  by (simp add: sample_power_def start_monitoring_def init_def)

subsection \<open>Four qualification runs\<close>

lemma stats_symmetric:
  "arithmetic_mean [a - d, a, a + d] = a"
  "sample_stdev [a - d, a, a + d] = \<bar>d\<bar>"
proof -
  show m: "arithmetic_mean [a - d, a, a + d] = a"
    by (simp add: arithmetic_mean_def)
  have "(\<Sum>x\<leftarrow>[a - d, a, a + d]. (x - a)\<^sup>2) / (real (length [a - d, a, a + d]) - 1) = d\<^sup>2"
    by (simp add: power2_eq_square)
  then show "sample_stdev [a - d, a, a + d] = \<bar>d\<bar>"
    by (simp only: sample_stdev_def m real_sqrt_abs)
qed

lemma range_three: "[0..<3] = [0, 1, 2]"
  by (simp add: upt_rec)

lemma measured_three:
  "measured_power (\<lambda>i. (Some ([a, b, c] ! i), real i / 40)) 3 =
     [real a / 1000, real b / 1000, real c / 1000]"
  by (simp add: measured_power_def range_three map_filter_simps)

lemma run_tier_1:
  "fst (qualify_for_discount (\<lambda>i. (Some ([95000, 100000, 105000] ! i), real i / 40))
          0 1 3 10 (init 0 0.025)) =
   Inr \<lparr> tier = TIER_1_EFFICIENT, discount_percentage = 20, power_cv = 0.05,
         avg_power_watts_q = 100, peak_power_watts_q = 105, qualified_q = True,
         reasoning = Excellent_stability 0.05 100 \<rparr>"
  using stats_symmetric [of 100 5]
  by (simp add: qualify_for_discount_valid measured_three determine_tier_def Let_def)

lemma run_tier_2:
  "fst (qualify_for_discount (\<lambda>i. (Some ([158400, 180000, 201600] ! i), real i / 40))
          0 1 3 10 (init 0 0.025)) =
   Inr \<lparr> tier = TIER_2_STANDARD, discount_percentage = 10, power_cv = 0.12,
         avg_power_watts_q = 180, peak_power_watts_q = 201.6, qualified_q = True,
         reasoning = Good_stability 0.12 180 \<rparr>"
  using stats_symmetric [of 180 "21.6"]
  by (simp add: qualify_for_discount_valid measured_three determine_tier_def Let_def)

lemma run_tier_3_variance:
  "fst (qualify_for_discount (\<lambda>i. (Some ([80000, 100000, 120000] ! i), real i / 40))
          0 1 3 10 (init 0 0.025)) =
   Inr \<lparr> tier = TIER_3_HIGH_VARIANCE, discount_percentage = 0, power_cv = 0.20,
         avg_power_watts_q = 100, peak_power_watts_q = 120, qualified_q = False,
         reasoning = High_variance 0.20 100 \<rparr>"
  using stats_symmetric [of 100 20]
  by (simp add: qualify_for_discount_valid measured_three determine_tier_def Let_def)

lemma run_tier_3_power:
  "fst (qualify_for_discount (\<lambda>i. (Some ([237500, 250000, 262500] ! i), real i / 40))
          0 1 3 10 (init 0 0.025)) =
   Inr \<lparr> tier = TIER_3_HIGH_VARIANCE, discount_percentage = 0, power_cv = 0.05,
         avg_power_watts_q = 250, peak_power_watts_q = 262.5, qualified_q = False,
         reasoning = High_variance 0.05 250 \<rparr>"
  using stats_symmetric [of 250 "12.5"]
  by (simp add: qualify_for_discount_valid measured_three determine_tier_def Let_def)

subsection \<open>Phase attribution in the analyzer\<close>

text \<open>
  With \<open>0 < prefill_sample_count < len(samples)\<close> the analyzer's prefill energy is
  the trapezoidal sum over the first \<open>prefill_sample_count\<close> samples at their
  recorded timestamps, and its decode energy is the trapezoidal sum over the
  samples from index \<open>prefill_sample_count - 1\<close> on: every interval between two
  samples is counted once, in one phase. Otherwise the prefill fields are 0 and
  decode has everything.
\<close>

lemma calculate_metrics_phase_attribution:
  assumes "2 \<le> length ps" and "length ps \<le> length ts"
  shows "\<exists>m. calculate_metrics ps ts tok n tpq name rid = Inr m \<and>
    (if 0 < n \<and> n < int (length ps)
     then prefill_energy_joules m = trapezoid (take (nat n) ps) (take (nat n) ts) \<and>
          prefill_duration_seconds m = ts ! (nat n - 1) - ts ! 0 \<and>
          decode_energy_joules m = trapezoid (drop (nat n - 1) ps) (drop (nat n - 1) ts) \<and>
          decode_duration_seconds m = last ts - ts ! (nat n - 1)
     else prefill_energy_joules m = 0 \<and> prefill_duration_seconds m = 0 \<and>
          decode_energy_joules m = total_energy_joules m \<and>
          decode_duration_seconds m = duration_seconds m)"
proof (cases "0 < n \<and> n < int (length ps)")
  case True
  then have k: "0 < nat n" "nat n \<le> length ps" by linarith+
  from assms have "ts \<noteq> []" by auto
  then have hd: "hd ts = ts ! 0" by (simp add: hd_conv_nth)
  from trapezoid_split [OF k, of ts] assms
  have "trapezoid ps ts - trapezoid (take (nat n) ps) (take (nat n) ts) =
      trapezoid (drop (nat n - 1) ps) (drop (nat n - 1) ts)"
    by simp
  with True assms hd show ?thesis
    by (simp add: calculate_metrics_valid)
next
  case False
  with assms show ?thesis
    by (auto simp: calculate_metrics_valid)
qed

lemma recorded_uniform:
  "sample_power (Some 100000) (1 / 20) (sample_power (Some 100000) (1 / 40)
     (sample_power (Some 100000) 0 (start_monitoring 0 (init 0 0.025)))) =
   \<lparr> gpu_index = 0, sampling_interval = 0.025, power_samples = [100, 100, 100],
     timestamps = [0, 1 / 40, 1 / 20], monitoring_active = True, start_time = Some 0,
     end_time = None \<rparr>"
  by (simp add: sample_power_def start_monitoring_def init_def)

lemma stats_uniform:
  "arithmetic_mean [100, 100, 100] = 100"
  "sample_stdev [100, 100, 100] = 0"
  using stats_symmetric [of 100 0] by simp_all

section \<open>The claims\<close>

text \<open>
  C1. The discount-qualification routine assigns the tier by a priority cascade
  over the pair it has just measured, the coefficient of variation and the average
  power of the readings of its own sampling loop: Tier 1 with a 20% discount,
  qualified, if \<open>CV < 0.10\<close> and \<open>avg_power < 150\<close>; otherwise Tier 2 with 10%,
  qualified, if \<open>CV < 0.15\<close> and \<open>avg_power < 200\<close>; otherwise Tier 3 with 0%, not
  qualified. So \<open>(0.05, 100)\<close> gives Tier 1, \<open>(0.12, 180)\<close> Tier 2, \<open>(0.20, 100)\<close>
  and \<open>(0.05, 250)\<close> Tier 3, and a measurement within both the Tier 1 and the
  Tier 2 bounds gives Tier 1.
\<close>

theorem tier_cascade:
  assumes "fst (qualify_for_discount polls t_start t_stop num_samples sample_tokens self) = Inr r"
  shows "avg_power_watts_q r = arithmetic_mean (measured_power polls num_samples) \<and>
    power_cv r =
      (if 0 < avg_power_watts_q r
       then sample_stdev (measured_power polls num_samples) / avg_power_watts_q r else 0) \<and>
    (tier r, discount_percentage r, qualified_q r) =
      (if power_cv r < 0.10 \<and> avg_power_watts_q r < 150 then (TIER_1_EFFICIENT, 20, True)
       else if power_cv r < 0.15 \<and> avg_power_watts_q r < 200 then (TIER_2_STANDARD, 10, True)
       else (TIER_3_HIGH_VARIANCE, 0, False)) \<and>
    (power_cv r = 0.05 \<and> avg_power_watts_q r = 100 \<longrightarrow>
       tier r = TIER_1_EFFICIENT \<and> discount_percentage r = 20 \<and> qualified_q r) \<and>
    (power_cv r = 0.12 \<and> avg_power_watts_q r = 180 \<longrightarrow>
       tier r = TIER_2_STANDARD \<and> discount_percentage r = 10 \<and> qualified_q r) \<and>
    (power_cv r = 0.20 \<and> avg_power_watts_q r = 100 \<longrightarrow>
       tier r = TIER_3_HIGH_VARIANCE \<and> discount_percentage r = 0 \<and> \<not> qualified_q r) \<and>
    (power_cv r = 0.05 \<and> avg_power_watts_q r = 250 \<longrightarrow>
       tier r = TIER_3_HIGH_VARIANCE \<and> discount_percentage r = 0 \<and> \<not> qualified_q r) \<and>
    (power_cv r < 0.10 \<and> avg_power_watts_q r < 150 \<and>
     power_cv r < 0.15 \<and> avg_power_watts_q r < 200 \<longrightarrow> tier r = TIER_1_EFFICIENT)"
proof (cases "length (measured_power polls num_samples) < 2")
  case True
  from qualify_for_discount_short [OF True, of t_start t_stop sample_tokens self] assms
  show ?thesis by simp
next
  case False
  then have "2 \<le> length (measured_power polls num_samples)" by simp
  from qualify_for_discount_valid [OF this, of t_start t_stop sample_tokens self] assms
  have r: "r = (let ps = measured_power polls num_samples;
          cv = (if 0 < arithmetic_mean ps then sample_stdev ps / arithmetic_mean ps else 0)
      in \<lparr> tier = fst (determine_tier cv (arithmetic_mean ps)),
           discount_percentage = fst (snd (determine_tier cv (arithmetic_mean ps))),
           power_cv = cv,
           avg_power_watts_q = arithmetic_mean ps,
           peak_power_watts_q = Max (set ps),
           qualified_q = fst (snd (snd (determine_tier cv (arithmetic_mean ps)))),
           reasoning = snd (snd (snd (determine_tier cv (arithmetic_mean ps)))) \<rparr>)"
    by (simp add: Let_def)
  then have avg: "avg_power_watts_q r = arithmetic_mean (measured_power polls num_samples)"
    and cv: "power_cv r =
      (if 0 < avg_power_watts_q r
       then sample_stdev (measured_power polls num_samples) / avg_power_watts_q r else 0)"
    and t: "tier r = fst (determine_tier (power_cv r) (avg_power_watts_q r))"
    and d: "discount_percentage r = fst (snd (determine_tier (power_cv r) (avg_power_watts_q r)))"
    and q: "qualified_q r = fst (snd (snd (determine_tier (power_cv r) (avg_power_watts_q r))))"
    by (simp_all add: Let_def)
  have cascade: "(tier r, discount_percentage r, qualified_q r) =
      (if power_cv r < 0.10 \<and> avg_power_watts_q r < 150 then (TIER_1_EFFICIENT, 20, True)
       else if power_cv r < 0.15 \<and> avg_power_watts_q r < 200 then (TIER_2_STANDARD, 10, True)
       else (TIER_3_HIGH_VARIANCE, 0, False))"
    unfolding t d q by (simp add: determine_tier_def)
  have "power_cv r = 0.05 \<and> avg_power_watts_q r = 100 \<longrightarrow>
       tier r = TIER_1_EFFICIENT \<and> discount_percentage r = 20 \<and> qualified_q r"
  proof (intro impI, elim conjE)
    assume c: "power_cv r = 0.05" and a: "avg_power_watts_q r = 100"
    show "tier r = TIER_1_EFFICIENT \<and> discount_percentage r = 20 \<and> qualified_q r"
      unfolding t d q c a by (simp add: determine_tier_def)
  qed
  moreover have "power_cv r = 0.12 \<and> avg_power_watts_q r = 180 \<longrightarrow>
       tier r = TIER_2_STANDARD \<and> discount_percentage r = 10 \<and> qualified_q r"
  proof (intro impI, elim conjE)
    assume c: "power_cv r = 0.12" and a: "avg_power_watts_q r = 180"
    show "tier r = TIER_2_STANDARD \<and> discount_percentage r = 10 \<and> qualified_q r"
      unfolding t d q c a by (simp add: determine_tier_def)
  qed
  moreover have "power_cv r = 0.20 \<and> avg_power_watts_q r = 100 \<longrightarrow>
       tier r = TIER_3_HIGH_VARIANCE \<and> discount_percentage r = 0 \<and> \<not> qualified_q r"
  proof (intro impI, elim conjE)
    assume c: "power_cv r = 0.20" and a: "avg_power_watts_q r = 100"
    show "tier r = TIER_3_HIGH_VARIANCE \<and> discount_percentage r = 0 \<and> \<not> qualified_q r"
      unfolding t d q c a by (simp add: determine_tier_def)
  qed
  moreover have "power_cv r = 0.05 \<and> avg_power_watts_q r = 250 \<longrightarrow>
       tier r = TIER_3_HIGH_VARIANCE \<and> discount_percentage r = 0 \<and> \<not> qualified_q r"
  proof (intro impI, elim conjE)
    assume c: "power_cv r = 0.05" and a: "avg_power_watts_q r = 250"
    show "tier r = TIER_3_HIGH_VARIANCE \<and> discount_percentage r = 0 \<and> \<not> qualified_q r"
      unfolding t d q c a by (simp add: determine_tier_def)
  qed
  moreover have "power_cv r < 0.10 \<and> avg_power_watts_q r < 150 \<and>
     power_cv r < 0.15 \<and> avg_power_watts_q r < 200 \<longrightarrow> tier r = TIER_1_EFFICIENT"
    unfolding t by (simp add: determine_tier_def)
  ultimately show ?thesis
    using avg cv cascade by blast
qed

text \<open>
  Four runs of three readings each (in milliwatts), measuring the four pairs above.
\<close>

theorem tier_cascade_witness:
  "fst (qualify_for_discount (\<lambda>i. (Some ([95000, 100000, 105000] ! i), real i / 40))
          0 1 3 10 (init 0 0.025)) =
     Inr \<lparr> tier = TIER_1_EFFICIENT, discount_percentage = 20, power_cv = 0.05,
           avg_power_watts_q = 100, peak_power_watts_q = 105, qualified_q = True,
           reasoning = Excellent_stability 0.05 100 \<rparr> \<and>
   fst (qualify_for_discount (\<lambda>i. (Some ([158400, 180000, 201600] ! i), real i / 40))
          0 1 3 10 (init 0 0.025)) =
     Inr \<lparr> tier = TIER_2_STANDARD, discount_percentage = 10, power_cv = 0.12,
           avg_power_watts_q = 180, peak_power_watts_q = 201.6, qualified_q = True,
           reasoning = Good_stability 0.12 180 \<rparr> \<and>
   fst (qualify_for_discount (\<lambda>i. (Some ([80000, 100000, 120000] ! i), real i / 40))
          0 1 3 10 (init 0 0.025)) =
     Inr \<lparr> tier = TIER_3_HIGH_VARIANCE, discount_percentage = 0, power_cv = 0.20,
           avg_power_watts_q = 100, peak_power_watts_q = 120, qualified_q = False,
           reasoning = High_variance 0.20 100 \<rparr> \<and>
   fst (qualify_for_discount (\<lambda>i. (Some ([237500, 250000, 262500] ! i), real i / 40))
          0 1 3 10 (init 0 0.025)) =
     Inr \<lparr> tier = TIER_3_HIGH_VARIANCE, discount_percentage = 0, power_cv = 0.05,
           avg_power_watts_q = 250, peak_power_watts_q = 262.5, qualified_q = False,
           reasoning = High_variance 0.05 250 \<rparr>"
  using tier_cascade [OF run_tier_1] tier_cascade [OF run_tier_2]
    tier_cascade [OF run_tier_3_variance] tier_cascade [OF run_tier_3_power]
    run_tier_1 run_tier_2 run_tier_3_variance run_tier_3_power
  by blast

text \<open>
  C2. For every list of at least two samples, with a timestamp for each sample, the
  energy integrator returns the trapezoidal sum over the consecutive pairs: the
  sum over \<open>i\<close> of \<open>(power[i] + power[i+1]) / 2 * (t[i+1] - t[i])\<close>. This holds for
  \<^verbatim>\<open>calculate_energy\<close> of the analyzer and for the loop of \<^verbatim>\<open>stop_monitoring\<close>.
  For two points \<open>(t0, p0)\<close>, \<open>(t1, p1)\<close> the result is \<open>(p0 + p1) / 2 * (t1 - t0)\<close>.
  No power value is clamped: the sum is over the values as recorded, negative
  ones too.
\<close>

theorem trapezoidal_integration:
  assumes "2 \<le> length ps" and "length ps \<le> length ts"
  shows "calculate_energy ps ts = Inr (trapezoid ps ts) \<and>
    fst (stop_monitoring now (self \<lparr> power_samples := ps, timestamps := ts \<rparr>)) =
      Inr (trapezoid ps ts) \<and>
    calculate_energy [p0, p1] [t0, t1] = Inr ((p0 + p1) / 2 * (t1 - t0))"
proof -
  have "calculate_energy [p0, p1] [t0, t1] = Inr (trapezoid [p0, p1] [t0, t1])"
    by (rule calculate_energy_trapezoid) simp
  then have "calculate_energy [p0, p1] [t0, t1] = Inr ((p0 + p1) / 2 * (t1 - t0))"
    by (simp add: trapezoid_def)
  with assms show ?thesis
    by (simp add: calculate_energy_trapezoid stop_monitoring_valid)
qed

theorem trapezoidal_integration_witness:
  "2 \<le> length [- 10, 4, 6 :: real] \<and> length [- 10, 4, 6 :: real] \<le> length [0, 2, 3 :: real] \<and>
   calculate_energy [- 10, 4, 6] [0, 2, 3] = Inr (- 1) \<and>
   fst (stop_monitoring 9 (init 0 0.025 \<lparr> power_samples := [- 10, 4, 6], timestamps := [0, 2, 3] \<rparr>))
     = Inr (- 1) \<and>
   calculate_energy [- 10, 4] [0, 2] = Inr (- 6)"
  using trapezoidal_integration [of "[- 10, 4, 6]" "[0, 2, 3]" 9 "init 0 0.025" "- 10" 4 0 2]
  by (simp add: trapezoid_def eval_nat_numeral)

text \<open>
  C3. For every metrics computation on at least two samples with a timestamp for
  each, and for every \<^verbatim>\<open>prefill_sample_count\<close>, the metrics returned satisfy
  \<open>prefill_energy + decode_energy = total_energy\<close> and
  \<open>decode_duration = duration - prefill_duration\<close>. The monitor's metrics have no
  duration split; their two energies add up to the total as well. The equalities
  are exact in real arithmetic.
\<close>

theorem phase_split_additive:
  assumes "2 \<le> length ps" and "length ps \<le> length ts"
  shows "(\<exists>m. calculate_metrics ps ts tok n tpq name rid = Inr m \<and>
            prefill_energy_joules m + decode_energy_joules m = total_energy_joules m \<and>
            decode_duration_seconds m = duration_seconds m - prefill_duration_seconds m) \<and>
         (\<exists>m self'. H200_calculate_metrics now temp tok pt
              (self \<lparr> power_samples := ps, timestamps := ts, start_time := Some t_start \<rparr>)
              = (Inr m, self') \<and>
            prefill_energy_joules_m m + decode_energy_joules_m m = total_energy_joules_m m)"
  using assms
  by (simp add: calculate_metrics_valid H200_calculate_metrics_valid)

theorem phase_split_additive_witness:
  "2 \<le> length [100, 200, 300 :: real] \<and> length [100, 200, 300 :: real] \<le> length [0, 1, 3 :: real] \<and>
   (\<exists>m. calculate_metrics [100, 200, 300] [0, 1, 3] 10 2 100 None None = Inr m \<and>
      prefill_energy_joules m + decode_energy_joules m = total_energy_joules m \<and>
      decode_duration_seconds m = duration_seconds m - prefill_duration_seconds m) \<and>
   (\<exists>m self'. H200_calculate_metrics 4 None 10 2
        (init 0 0.025 \<lparr> power_samples := [100, 200, 300], timestamps := [0, 1, 3],
           start_time := Some 0 \<rparr>) = (Inr m, self') \<and>
      prefill_energy_joules_m m + decode_energy_joules_m m = total_energy_joules_m m)"
  using phase_split_additive [where ps = "[100, 200, 300]" and ts = "[0, 1, 3]" and tok = 10
      and n = 2 and tpq = 100 and name = None and rid = None and now = 4 and temp = None
      and pt = 2 and self = "init 0 0.025" and t_start = 0]
  by simp

text \<open>
  C4. With \<open>0 < prefill_sample_count < len(samples)\<close>, the prefill energy of a
  metrics computation is to be the trapezoidal sum over the first
  \<open>prefill_sample_count\<close> samples at their recorded timestamps, never at an
  assumed fixed sampling interval. The analyzer computes it so, as shown above.
  The monitor does not. Three readings of 100 W are recorded 25 ms apart, the
  monitor's own sampling interval, and its \<^verbatim>\<open>calculate_metrics\<close> is called with
  a prefill count of 2. The trapezoidal sum over the first two samples is 2.5 J,
  which the analyzer reports on the same session, with 2.5 J left for decode. The
  monitor computes \<^verbatim>\<open>sum(prefill_samples) * sampling_interval\<close> instead: 5 J, all of
  the session's energy, and 0 J for decode.
\<close>

theorem H200_prefill_energy_fixed_interval:
  "fst (H200_calculate_metrics (3 / 40) None 10 2
     (sample_power (Some 100000) (1 / 20) (sample_power (Some 100000) (1 / 40)
        (sample_power (Some 100000) 0 (start_monitoring 0 (init 0 0.025)))))) =
   Inr \<lparr> total_energy_joules_m = 5,
         tokens_generated_m = 10,
         joules_per_token_m = 1 / 2,
         tokens_per_joule_m = 2,
         avg_power_watts_m = 100,
         peak_power_watts_m = 100,
         duration_seconds_m = 3 / 40,
         prefill_energy_joules_m = 5,
         decode_energy_joules_m = 0,
         wh_per_1k_queries_m = 125 / 9,
         gpu_temp_celsius = None,
         thermal_throttled = False,
         power_throttled = False,
         power_variance_cv_m = Some 0 \<rparr> \<and>
   trapezoid (take 2 [100, 100, 100]) (take 2 [0, 1 / 40, 1 / 20]) = 5 / 2 \<and>
   calculate_metrics [100, 100, 100] [0, 1 / 40, 1 / 20] 10 2 100 None None =
   Inr \<lparr> total_energy_joules = 5,
         tokens_generated = 10,
         joules_per_token = 1 / 2,
         tokens_per_joule = 2,
         avg_power_watts = 100,
         peak_power_watts = 100,
         duration_seconds = 1 / 20,
         prefill_energy_joules = 5 / 2,
         prefill_duration_seconds = 1 / 40,
         decode_energy_joules = 5 / 2,
         decode_duration_seconds = 1 / 40,
         wh_per_1k_queries = 125 / 9,
         power_variance_cv = 0,
         model_name = None,
         run_id = None \<rparr>"
proof -
  have two: "trapezoid [a, b] [t0, t1] = (a + b) / 2 * (t1 - t0)" for a b t0 t1
    by (simp add: trapezoid_def)
  show ?thesis
    unfolding recorded_uniform
    by (simp add: H200_calculate_metrics_valid [where t_start = 0] calculate_metrics_valid
        stats_uniform trapezoid_three two)
qed

text \<open>
  C5, as amended. For every sample set of at least two samples, the analyzer's
  \<^verbatim>\<open>calculate_metrics\<close> reports as power coefficient of variation the
  Bessel-corrected sample standard deviation divided by the arithmetic mean when
  the mean is greater than 1.0, and 0.0 when the mean is at most 1.0. The monitor's
  \<^verbatim>\<open>calculate_metrics\<close> guards the division by \<open>mean > 0\<close> instead: it reports
  the quotient for every positive mean, and 0.0 only when the mean is at most 0.
\<close>

theorem power_cv_guards:
  assumes "2 \<le> length ps" and "length ps \<le> length ts"
  shows "(\<exists>m. calculate_metrics ps ts tok n tpq name rid = Inr m \<and>
            power_variance_cv m =
              (if arithmetic_mean ps > 1 then sample_stdev ps / arithmetic_mean ps else 0)) \<and>
         (\<exists>m self'. H200_calculate_metrics now temp tok pt
              (self \<lparr> power_samples := ps, timestamps := ts, start_time := Some t_start \<rparr>)
              = (Inr m, self') \<and>
            power_variance_cv_m m =
              Some (if arithmetic_mean ps > 0 then sample_stdev ps / arithmetic_mean ps else 0))"
  using assms
  by (simp add: calculate_metrics_valid H200_calculate_metrics_valid)

theorem power_cv_guards_witness:
  "2 \<le> length [1 / 4, 1 / 2, 3 / 4 :: real] \<and>
   length [1 / 4, 1 / 2, 3 / 4 :: real] \<le> length [0, 1, 2 :: real] \<and>
   (\<exists>m. calculate_metrics [1 / 4, 1 / 2, 3 / 4] [0, 1, 2] 10 0 100 None None = Inr m \<and>
      power_variance_cv m = 0) \<and>
   (\<exists>m self'. H200_calculate_metrics 3 None 10 0
        (init 0 0.025 \<lparr> power_samples := [1 / 4, 1 / 2, 3 / 4], timestamps := [0, 1, 2],
           start_time := Some 0 \<rparr>) = (Inr m, self') \<and>
      power_variance_cv_m m = Some (1 / 2))"
  using power_cv_guards [where ps = "[1 / 4, 1 / 2, 3 / 4]" and ts = "[0, 1, 2]" and tok = 10
      and n = 0 and tpq = 100 and name = None and rid = None and now = 3 and temp = None
      and pt = 0 and self = "init 0 0.025" and t_start = 0]
  by (simp add: stats_quarters)

text \<open>
  C5 as stated fails on the monitor: three readings of 250, 500 and 750 milliwatts
  have the mean 0.5 watts, at most 1.0, and the coefficient reported is 0.5, not 0.0.
\<close>

theorem power_cv_guard_counterexample:
  "fst (H200_calculate_metrics 3 None 10 0
     (sample_power (Some 750) 2 (sample_power (Some 500) 1 (sample_power (Some 250) 0
        (start_monitoring 0 (init 0 0.025)))))) =
   Inr \<lparr> total_energy_joules_m = 1,
         tokens_generated_m = 10,
         joules_per_token_m = 1 / 10,
         tokens_per_joule_m = 10,
         avg_power_watts_m = 1 / 2,
         peak_power_watts_m = 3 / 4,
         duration_seconds_m = 3,
         prefill_energy_joules_m = 0,
         decode_energy_joules_m = 1,
         wh_per_1k_queries_m = 25 / 9,
         gpu_temp_celsius = None,
         thermal_throttled = False,
         power_throttled = False,
         power_variance_cv_m = Some (1 / 2) \<rparr>"
  unfolding recorded_quarters
  by (simp add: H200_calculate_metrics_valid [where t_start = 0] stats_quarters trapezoid_three)

text \<open>
  C6, as amended. Metrics computation raises \<^verbatim>\<open>ValueError\<close> for every input with
  fewer than two power samples (the analyzer's \<^verbatim>\<open>calculate_metrics\<close>, and the
  monitor's \<^verbatim>\<open>stop_monitoring\<close> and \<^verbatim>\<open>calculate_metrics\<close>), and returns no
  metrics then. The number of timestamps is not compared with the number of
  samples: with at least two samples the analyzer raises \<^verbatim>\<open>IndexError\<close> when the
  timestamps are fewer, and returns metrics when they are as many or more.
\<close>

theorem insufficient_samples:
  "(length ps < 2 \<longrightarrow>
      calculate_metrics ps ts tok n tpq name rid = Inl (ValueError ''Need at least 2 samples'')) \<and>
   (length (power_samples self) < 2 \<longrightarrow>
      fst (stop_monitoring now self) =
        Inl (ValueError ''Insufficient power samples for energy calculation'') \<and>
      fst (H200_calculate_metrics now temp tok pt self) =
        Inl (ValueError ''Insufficient power samples for energy calculation'')) \<and>
   (2 \<le> length ps \<and> length ts < length ps \<longrightarrow>
      calculate_metrics ps ts tok n tpq name rid = Inl IndexError) \<and>
   (2 \<le> length ps \<and> length ps \<le> length ts \<longrightarrow>
      (\<exists>m. calculate_metrics ps ts tok n tpq name rid = Inr m))"
proof (intro conjI impI)
  assume "length ps < 2"
  then show "calculate_metrics ps ts tok n tpq name rid =
      Inl (ValueError ''Need at least 2 samples'')"
    by (simp add: calculate_metrics_def)
next
  assume "length (power_samples self) < 2"
  then show "fst (stop_monitoring now self) =
      Inl (ValueError ''Insufficient power samples for energy calculation'')"
    by (simp add: stop_monitoring_short)
next
  assume "length (power_samples self) < 2"
  then show "fst (H200_calculate_metrics now temp tok pt self) =
      Inl (ValueError ''Insufficient power samples for energy calculation'')"
    by (simp add: H200_calculate_metrics_def stop_monitoring_short)
next
  assume "2 \<le> length ps \<and> length ts < length ps"
  then show "calculate_metrics ps ts tok n tpq name rid = Inl IndexError"
    by (simp add: calculate_metrics_def calculate_energy_IndexError)
next
  assume "2 \<le> length ps \<and> length ps \<le> length ts"
  then show "\<exists>m. calculate_metrics ps ts tok n tpq name rid = Inr m"
    by (simp add: calculate_metrics_valid)
qed

theorem insufficient_samples_witness:
  "calculate_metrics [100] [0] 5 0 100 None None = Inl (ValueError ''Need at least 2 samples'') \<and>
   calculate_metrics [] [] 5 0 100 None None = Inl (ValueError ''Need at least 2 samples'') \<and>
   fst (stop_monitoring 1 (sample_power (Some 100000) 0 (start_monitoring 0 (init 0 0.025)))) =
     Inl (ValueError ''Insufficient power samples for energy calculation'') \<and>
   calculate_metrics [1, 2, 3] [0, 1] 5 0 100 None None = Inl IndexError \<and>
   (\<exists>m. calculate_metrics [1, 2, 3] [0, 1, 2] 5 0 100 None None = Inr m)"
  using insufficient_samples [where ps = "[100]" and ts = "[0]" and tok = 5 and n = 0
      and tpq = 100 and name = None and rid = None and now = 1
      and self = "sample_power (Some 100000) 0 (start_monitoring 0 (init 0 0.025))"]
    insufficient_samples [where ps = "[]" and ts = "[]" and tok = 5 and n = 0
      and tpq = 100 and name = None and rid = None]
    insufficient_samples [where ps = "[1, 2, 3]" and ts = "[0, 1]" and tok = 5 and n = 0
      and tpq = 100 and name = None and rid = None]
    insufficient_samples [where ps = "[1, 2, 3]" and ts = "[0, 1, 2]" and tok = 5 and n = 0
      and tpq = 100 and name = None and rid = None]
  by (simp add: sample_power_def start_monitoring_def init_def)

text \<open>
  C6 as stated fails: three samples with four timestamps violate
  \<open>len(samples) = len(timestamps)\<close>, and metrics are returned, the duration taken
  up to the fourth timestamp.
\<close>

theorem length_mismatch_counterexample:
  "calculate_metrics [1, 2, 3] [0, 1, 2, 10] 5 0 100 None None =
   Inr \<lparr> total_energy_joules = 4,
         tokens_generated = 5,
         joules_per_token = 4 / 5,
         tokens_per_joule = 5 / 4,
         avg_power_watts = 2,
         peak_power_watts = 3,
         duration_seconds = 10,
         prefill_energy_joules = 0,
         prefill_duration_seconds = 0,
         decode_energy_joules = 4,
         decode_duration_seconds = 10,
         wh_per_1k_queries = 200 / 9,
         power_variance_cv = 1 / 2,
         model_name = None,
         run_id = None \<rparr>"
  by (simp add: calculate_metrics_valid stats_one_two_three trapezoid_three)

text \<open>
  C7. For every metrics computation on at least two samples with a timestamp for
  each, \<open>joules_per_token\<close> is \<open>total_energy / tokens_generated\<close> when
  \<open>tokens_generated > 0\<close> and 0 otherwise, and \<open>tokens_per_joule\<close> is
  \<open>tokens_generated / total_energy\<close> when \<open>total_energy > 0\<close> and 0 otherwise. With
  \<open>tokens_generated = 0\<close> both are 0 and no exception is raised. The analyzer and
  the monitor agree.
\<close>

theorem zero_token_guards:
  assumes "2 \<le> length ps" and "length ps \<le> length ts"
  shows "(\<exists>m. calculate_metrics ps ts tok n tpq name rid = Inr m \<and>
            joules_per_token m =
              (if 0 < tok then total_energy_joules m / real_of_int tok else 0) \<and>
            tokens_per_joule m =
              (if 0 < total_energy_joules m then real_of_int tok / total_energy_joules m else 0) \<and>
            (tok = 0 \<longrightarrow> joules_per_token m = 0 \<and> tokens_per_joule m = 0)) \<and>
         (\<exists>m self'. H200_calculate_metrics now temp tok pt
              (self \<lparr> power_samples := ps, timestamps := ts, start_time := Some t_start \<rparr>)
              = (Inr m, self') \<and>
            joules_per_token_m m =
              (if 0 < tok then total_energy_joules_m m / real_of_int tok else 0) \<and>
            tokens_per_joule_m m =
              (if 0 < total_energy_joules_m m then real_of_int tok / total_energy_joules_m m
               else 0) \<and>
            (tok = 0 \<longrightarrow> joules_per_token_m m = 0 \<and> tokens_per_joule_m m = 0))"
  using assms
  by (simp add: calculate_metrics_valid H200_calculate_metrics_valid)

theorem zero_token_guards_witness:
  "2 \<le> length [100, 200, 300 :: real] \<and> length [100, 200, 300 :: real] \<le> length [0, 1, 3 :: real] \<and>
   (\<exists>m. calculate_metrics [100, 200, 300] [0, 1, 3] 0 0 100 None None = Inr m \<and>
      joules_per_token m = 0 \<and> tokens_per_joule m = 0) \<and>
   (\<exists>m self'. H200_calculate_metrics 4 None 0 0
        (init 0 0.025 \<lparr> power_samples := [100, 200, 300], timestamps := [0, 1, 3],
           start_time := Some 0 \<rparr>) = (Inr m, self') \<and>
      joules_per_token_m m = 0 \<and> tokens_per_joule_m m = 0)"
  using zero_token_guards [where ps = "[100, 200, 300]" and ts = "[0, 1, 3]" and tok = 0
      and n = 0 and tpq = 100 and name = None and rid = None and now = 4 and temp = None
      and pt = 0 and self = "init 0 0.025" and t_start = 0]
  by auto

text \<open>
  C8. For every metrics computation on at least two samples with a timestamp for
  each, \<open>wh_per_1k_queries = (joules_per_token * tokens_per_query * 1000) / 3600\<close>,
  where \<open>tokens_per_query\<close> is an argument of the analyzer's \<^verbatim>\<open>calculate_metrics\<close>
  with the default 100. The monitor computes the same formula at 100.
\<close>

theorem wh_per_1k_queries_formula:
  assumes "2 \<le> length ps" and "length ps \<le> length ts"
  shows "(\<exists>m. calculate_metrics ps ts tok n tpq name rid = Inr m \<and>
            wh_per_1k_queries m = (joules_per_token m * real_of_int tpq * 1000) / 3600) \<and>
         (\<exists>m. calculate_metrics_default ps ts tok = Inr m \<and>
            wh_per_1k_queries m = (joules_per_token m * 100 * 1000) / 3600) \<and>
         (\<exists>m self'. H200_calculate_metrics now temp tok pt
              (self \<lparr> power_samples := ps, timestamps := ts, start_time := Some t_start \<rparr>)
              = (Inr m, self') \<and>
            wh_per_1k_queries_m m = (joules_per_token_m m * 100 * 1000) / 3600)"
  using assms
  by (simp add: calculate_metrics_default_def calculate_metrics_valid H200_calculate_metrics_valid)

theorem wh_per_1k_queries_formula_witness:
  "2 \<le> length [100, 200, 300 :: real] \<and> length [100, 200, 300 :: real] \<le> length [0, 1, 3 :: real] \<and>
   (\<exists>m. calculate_metrics [100, 200, 300] [0, 1, 3] 10 0 250 None None = Inr m \<and>
      wh_per_1k_queries m = (joules_per_token m * 250 * 1000) / 3600) \<and>
   (\<exists>m. calculate_metrics_default [100, 200, 300] [0, 1, 3] 10 = Inr m \<and>
      wh_per_1k_queries m = (joules_per_token m * 100 * 1000) / 3600) \<and>
   (\<exists>m self'. H200_calculate_metrics 4 None 10 0
        (init 0 0.025 \<lparr> power_samples := [100, 200, 300], timestamps := [0, 1, 3],
           start_time := Some 0 \<rparr>) = (Inr m, self') \<and>
      wh_per_1k_queries_m m = (joules_per_token_m m * 100 * 1000) / 3600)"
  using wh_per_1k_queries_formula [where ps = "[100, 200, 300]" and ts = "[0, 1, 3]" and tok = 10
      and n = 0 and tpq = 250 and name = None and rid = None and now = 4 and temp = None
      and pt = 0 and self = "init 0 0.025" and t_start = 0]
  by simp

text \<open>
  C9. For every constant power trace of at least two samples, all equal to \<open>p\<close>,
  with a timestamp for each, the analyzer's metrics have \<open>power_cv = 0\<close> and
  \<open>total_energy = p * duration\<close>, where \<open>duration\<close> is the last timestamp minus the
  first. The timestamps need not increase for this to hold.
\<close>

theorem constant_trace:
  assumes "2 \<le> length ps" and "length ts = length ps" and "\<forall>x \<in> set ps. x = p"
  shows "\<exists>m. calculate_metrics ps ts tok n tpq name rid = Inr m \<and>
           power_variance_cv m = 0 \<and>
           duration_seconds m = last ts - hd ts \<and>
           total_energy_joules m = p * duration_seconds m"
proof -
  from assms have ne: "ps \<noteq> []" by auto
  from assms ne show ?thesis
    by (simp add: calculate_metrics_valid constant_stdev [OF assms(3) ne]
        trapezoid_constant [OF assms(3) assms(2) ne])
qed

theorem constant_trace_witness:
  "\<exists>m. calculate_metrics [150, 150, 150] [0, 1 / 2, 2] 7 0 100 None None = Inr m \<and>
      power_variance_cv m = 0 \<and> duration_seconds m = 2 \<and> total_energy_joules m = 300"
  using constant_trace [where ps = "[150, 150, 150]" and ts = "[0, 1 / 2, 2]" and p = 150
      and tok = 7 and n = 0 and tpq = 100 and name = None and rid = None]
  by auto

text \<open>
  C10. For every metrics computation on at least two samples with a timestamp for
  each, the peak power is at least the average power: the maximum of the samples
  is at least their arithmetic mean. The analyzer and the monitor agree.
\<close>

theorem peak_at_least_average:
  assumes "2 \<le> length ps" and "length ps \<le> length ts"
  shows "(\<exists>m. calculate_metrics ps ts tok n tpq name rid = Inr m \<and>
            avg_power_watts m \<le> peak_power_watts m) \<and>
         (\<exists>m self'. H200_calculate_metrics now temp tok pt
              (self \<lparr> power_samples := ps, timestamps := ts, start_time := Some t_start \<rparr>)
              = (Inr m, self') \<and>
            avg_power_watts_m m \<le> peak_power_watts_m m)"
proof -
  from assms have "ps \<noteq> []" by auto
  with assms mean_le_Max [of ps] show ?thesis
    by (simp add: calculate_metrics_valid H200_calculate_metrics_valid)
qed

theorem peak_at_least_average_witness:
  "2 \<le> length [100, 200, 300 :: real] \<and> length [100, 200, 300 :: real] \<le> length [0, 1, 3 :: real] \<and>
   (\<exists>m. calculate_metrics [100, 200, 300] [0, 1, 3] 10 0 100 None None = Inr m \<and>
      avg_power_watts m \<le> peak_power_watts m) \<and>
   (\<exists>m self'. H200_calculate_metrics 4 None 10 0
        (init 0 0.025 \<lparr> power_samples := [100, 200, 300], timestamps := [0, 1, 3],
           start_time := Some 0 \<rparr>) = (Inr m, self') \<and>
      avg_power_watts_m m \<le> peak_power_watts_m m)"
  using peak_at_least_average [where ps = "[100, 200, 300]" and ts = "[0, 1, 3]" and tok = 10
      and n = 0 and tpq = 100 and name = None and rid = None and now = 4 and temp = None
      and pt = 0 and self = "init 0 0.025" and t_start = 0]
  by simp

end
